theory Spec2Isabelle
  imports Complex_Main "HOL-Library.Sublist" "HOL-Library.AList"
begin

section \<open>Python values, exceptions and the outside world\<close>

text \<open>
  The script is dynamically typed: the \<open>headers\<close> argument of \<open>send_request\<close> is
  \<open>None\<close>, a JSON string or a dict, and \<open>json.loads\<close> may return any JSON value. The
  values the program can meet are modelled by one datatype. A dict is an association list in
  insertion order; the dicts that occur have string keys.
\<close>

datatype pyfloat = Finite rat | NegZero | PosInf | NegInf | NaN

datatype pyval =
    PNone
  | PBool bool
  | PInt int
  | PFloat pyfloat
  | PStr string
  | PList "pyval list"
  | PDict "(pyval \<times> pyval) list"

type_synonym pydict = "(pyval \<times> pyval) list"

text \<open>Truth value testing, as \<open>if headers:\<close> and \<open>if status_code and resp_text:\<close> use it.\<close>

fun truthy :: "pyval \<Rightarrow> bool" where
  "truthy PNone = False"
| "truthy (PBool b) = b"
| "truthy (PInt i) = (i \<noteq> 0)"
| "truthy (PFloat f) = (f \<noteq> Finite 0 \<and> f \<noteq> NegZero)"
| "truthy (PStr s) = (s \<noteq> [])"
| "truthy (PList xs) = (xs \<noteq> [])"
| "truthy (PDict kvs) = (kvs \<noteq> [])"

text \<open>
  The exceptions (all subclasses of \<open>Exception\<close>). \<open>HTTPError\<close> is a subclass of
  \<open>RequestException\<close>; the constructor \<open>RequestException\<close> stands for that class and its
  other subclasses (connection errors, timeouts), \<open>OtherException\<close> for every class the
  program does not name.
\<close>

datatype exn =
    JSONDecodeError
  | TypeError
  | ValueError
  | HTTPError
  | RequestException
  | OtherException

definition is_RequestException :: "exn \<Rightarrow> bool" where
  "is_RequestException e = (e = RequestException \<or> e = HTTPError)"

record request =
  req_method :: string
  req_url :: string
  req_data :: "string option"
  req_headers :: pyval
  req_timeout :: int
  allow_redirects :: bool

record response =
  status_code :: int
  resp_headers :: "(string \<times> string) list"
  resp_text :: string

record parse_result =
  scheme :: string
  netloc :: string

text \<open>
  The library calls the script makes are parameters of the model, so that every theorem
  holds for whatever they do:
  \<^item> \<open>json_parse\<close>: \<open>json.loads\<close> on a \<open>str\<close>;
  \<^item> \<open>update_from_pairs\<close>: \<open>dict.update\<close> with a non-empty list as argument;
  \<^item> \<open>urlparse\<close>: \<open>urllib.parse.urlparse\<close>, of whose result only \<open>scheme\<close> and
    \<open>netloc\<close> are read;
  \<^item> \<open>requests_request\<close>: \<open>requests.request\<close>, which may answer differently as the
    requests made before it (its first argument) differ.
\<close>

record env =
  json_parse :: "string \<Rightarrow> exn + pyval"
  update_from_pairs :: "pydict \<Rightarrow> pyval list \<Rightarrow> exn + pydict"
  urlparse :: "string \<Rightarrow> exn + parse_result"
  requests_request :: "request list \<Rightarrow> request \<Rightarrow> exn + response"

text \<open>
  \<open>json.loads\<close> accepts \<open>str\<close> (and \<open>bytes\<close>, \<open>bytearray\<close>, which do not occur) and
  raises \<open>TypeError\<close> on anything else, a dict included.
\<close>

definition json_loads :: "env \<Rightarrow> pyval \<Rightarrow> exn + pyval" where
  "json_loads env v = (case v of PStr s \<Rightarrow> json_parse env s | _ \<Rightarrow> Inl TypeError)"

text \<open>
  \<open>d.update(other)\<close>. A dict argument overrides the keys it has and appends the new ones; a
  value that is not iterable raises \<open>TypeError\<close>; a string is iterated character by
  character, and a character is not a key/value pair (\<open>ValueError\<close>).
\<close>

definition update_items :: "pydict \<Rightarrow> pydict \<Rightarrow> pydict" where
  "update_items d kvs = fold (\<lambda>(k, v). AList.update k v) kvs d"

fun dict_update :: "env \<Rightarrow> pydict \<Rightarrow> pyval \<Rightarrow> exn + pydict" where
  "dict_update env d (PDict kvs) = Inr (update_items d kvs)"
| "dict_update env d (PList []) = Inr d"
| "dict_update env d (PList (x # xs)) = update_from_pairs env d (x # xs)"
| "dict_update env d (PStr s) = (if s = [] then Inr d else Inl ValueError)"
| "dict_update env d PNone = Inl TypeError"
| "dict_update env d (PBool b) = Inl TypeError"
| "dict_update env d (PInt i) = Inl TypeError"
| "dict_update env d (PFloat f) = Inl TypeError"

text \<open>
  What the program does to the world is a trace of events: the log records written and the
  calls of \<open>requests.request\<close>. The program itself emits only \<open>Log\<close> and \<open>Request\<close>;
  \<open>Ext\<close> is left to stand-ins for a component (a recording request sender, below). The
  text of a log record is the format string of the source, its placeholders not filled in.
\<close>

datatype level = INFO | WARNING | ERROR

datatype 'x event = Log level string | Request request | Ext 'x

fun http_requests :: "'x event list \<Rightarrow> request list" where
  "http_requests [] = []"
| "http_requests (Request r # evs) = r # http_requests evs"
| "http_requests (_ # evs) = http_requests evs"

fun exts :: "'x event list \<Rightarrow> 'x list" where
  "exts [] = []"
| "exts (Ext x # evs) = x # exts evs"
| "exts (_ # evs) = exts evs"

fun logs :: "'x event list \<Rightarrow> (level \<times> string) list" where
  "logs [] = []"
| "logs (Log l m # evs) = (l, m) # logs evs"
| "logs (_ # evs) = logs evs"

section \<open>is_valid_url\<close>

definition is_valid_url :: "env \<Rightarrow> string \<Rightarrow> bool" where
  "is_valid_url env url =
     (case urlparse env url of
        Inl e \<Rightarrow> False
      | Inr result \<Rightarrow> list_all (\<lambda>s. s \<noteq> []) [scheme result, netloc result])"

section \<open>send_request\<close>

text \<open>
  \<open>send_request\<close> returns a tuple: \<open>(None, None)\<close> from the handler of the JSON error,
  \<open>(None, None, None)\<close> from the two outer handlers, and the status code, headers and text
  of the response otherwise.
\<close>

datatype sendret =
    NoneNone
  | NoneNoneNone
  | StatusHeadersText int "(string \<times> string) list" string

definition raise_for_status :: "response \<Rightarrow> exn + unit" where
  "raise_for_status r =
     (if 400 \<le> status_code r \<and> status_code r < 600 then Inl HTTPError else Inr ())"

text \<open>Lines 48 to 63: the request itself, inside the outer \<open>try\<close>.\<close>

definition perform_request ::
  "env \<Rightarrow> string \<Rightarrow> string \<Rightarrow> string option \<Rightarrow> pyval \<Rightarrow> int \<Rightarrow> bool \<Rightarrow> 'x event list
     \<Rightarrow> (exn + sendret) \<times> 'x event list" where
  "perform_request env url method data headers timeout verbose tr =
     (let tr1 = tr @
            (if verbose then
               [Log INFO ''Sending {method} request to: {url}''] @
               (if data \<noteq> None \<and> data \<noteq> Some [] then [Log INFO ''Data: {data}''] else []) @
               (if truthy headers then [Log INFO ''Headers: {headers}''] else [])
             else []);
          req = \<lparr>req_method = method, req_url = url, req_data = data, req_headers = headers,
                 req_timeout = timeout, allow_redirects = False\<rparr>;
          tr2 = tr1 @ [Request req]
      in case requests_request env (http_requests tr1) req of
           Inl e \<Rightarrow> (Inl e, tr2)
         | Inr response \<Rightarrow>
             (case raise_for_status response of
                Inl e \<Rightarrow> (Inl e, tr2)
              | Inr _ \<Rightarrow>
                  (Inr (StatusHeadersText (status_code response) (resp_headers response)
                          (resp_text response)),
                   tr2 @
                   (if verbose then
                      [Log INFO ''Received response with status code: {response.status_code}'',
                       Log INFO ''Response headers: {response.headers}'',
                       Log INFO ''Response content: {response.text}'']
                    else []))))"

text \<open>Lines 40 to 63: the body of the outer \<open>try\<close>; \<open>Inl\<close> is an exception leaving it.\<close>

definition send_request_body ::
  "env \<Rightarrow> string \<Rightarrow> string \<Rightarrow> string option \<Rightarrow> pyval \<Rightarrow> int \<Rightarrow> bool \<Rightarrow> 'x event list
     \<Rightarrow> (exn + sendret) \<times> 'x event list" where
  "send_request_body env url method data headers timeout verbose tr =
     (if truthy headers then
        (case json_loads env headers of
           Inl e \<Rightarrow>
             (if e = JSONDecodeError
              then (Inr NoneNone, tr @ [Log ERROR ''Invalid JSON format for headers: {e}''])
              else (Inl e, tr))
         | Inr parsed \<Rightarrow> perform_request env url method data parsed timeout verbose tr)
      else perform_request env url method data headers timeout verbose tr)"

definition send_request ::
  "env \<Rightarrow> string \<Rightarrow> string \<Rightarrow> string option \<Rightarrow> pyval \<Rightarrow> int \<Rightarrow> bool \<Rightarrow> 'x event list
     \<Rightarrow> sendret \<times> 'x event list" where
  "send_request env url method data headers timeout verbose tr =
     (case send_request_body env url method data headers timeout verbose tr of
        (Inr result, tr') \<Rightarrow> (result, tr')
      | (Inl e, tr') \<Rightarrow>
          (if is_RequestException e
           then (NoneNoneNone, tr' @ [Log ERROR ''Request failed: {e}''])
           else (NoneNoneNone, tr' @ [Log ERROR ''An unexpected error occurred: {e}''])))"

section \<open>detect_http_smuggling\<close>

definition crlf :: string where
  "crlf = [CHR 0x0D, CHR 0x0A]"

definition sentinel :: string where
  "sentinel = ''X-Foo: bar''"

definition cl_te_headers :: pydict where
  "cl_te_headers =
     [(PStr ''Content-Length'', PStr ''41''), (PStr ''Transfer-Encoding'', PStr ''chunked'')]"

definition cl_te_data :: string where
  "cl_te_data = ''0'' @ crlf @ crlf @ ''GET / HTTP/1.1'' @ crlf @ ''X-Foo: bar'' @ crlf @ crlf"

definition te_cl_headers :: pydict where
  "te_cl_headers =
     [(PStr ''Transfer-Encoding'', PStr ''chunked''), (PStr ''Content-Length'', PStr ''100'')]"

definition te_cl_data :: string where
  "te_cl_data =
     ''5c'' @ crlf @ ''GET / HTTP/1.1'' @ crlf @ ''Host: example.com'' @ crlf @
     ''Content-Length: 10'' @ crlf @ ''X-Foo: bar'' @ crlf @ crlf @ ''0'' @ crlf @ crlf"

definition te_te_headers :: pydict where
  "te_te_headers = [(PStr ''Transfer-Encoding'', PStr ''chunked, chunked'')]"

definition te_te_data :: string where
  "te_te_data = ''0'' @ crlf @ crlf @ ''GET / HTTP/1.1'' @ crlf @ ''X-Foo: bar'' @ crlf @ crlf"

text \<open>
  The function is three blocks of the same shape, one per probe. A block ends in one of
  three ways: it returns from the function, an exception leaves it, or control falls
  through to the next block.
\<close>

datatype outcome = Returned bool | Raised exn | FellThrough

type_synonym 'x sender =
  "string \<Rightarrow> string \<Rightarrow> string option \<Rightarrow> pyval \<Rightarrow> int \<Rightarrow> bool \<Rightarrow> 'x event list
     \<Rightarrow> sendret \<times> 'x event list"

text \<open>\<open>if status_code and resp_text: if "X-Foo: bar" in resp_text\<close>, on the unpacked tuple.\<close>

fun detected :: "sendret \<Rightarrow> bool" where
  "detected (StatusHeadersText status hs txt) = (status \<noteq> 0 \<and> txt \<noteq> [] \<and> sublist sentinel txt)"
| "detected _ = False"

text \<open>
  One block, for the probe called \<open>name\<close> with its fixed headers and data. The request
  sender is an argument: the source calls the module's \<open>send_request\<close>
  (see \<open>detect_http_smuggling\<close> below), and the properties of the blocks hold whatever
  the sender returns. Unpacking a tuple of two into three names raises \<open>ValueError\<close>.
\<close>

definition probe ::
  "'x sender \<Rightarrow> env \<Rightarrow> string \<Rightarrow> pydict \<Rightarrow> string
     \<Rightarrow> string \<Rightarrow> string \<Rightarrow> pyval \<Rightarrow> int \<Rightarrow> bool \<Rightarrow> 'x event list \<Rightarrow> outcome \<times> 'x event list" where
  "probe send env name fixed_headers fixed_data url method headers timeout verbose tr =
     (case (if truthy headers then
              (case json_loads env headers of
                 Inl e \<Rightarrow>
                   (if e = JSONDecodeError
                    then Inl (Returned False,
                              tr @ [Log ERROR ''Invalid JSON format for headers: {e}''])
                    else Inl (Raised e, tr))
               | Inr custom_headers \<Rightarrow>
                   (case dict_update env fixed_headers custom_headers of
                      Inl e \<Rightarrow> Inl (Raised e, tr)
                    | Inr merged \<Rightarrow> Inr merged))
            else Inr fixed_headers) of
        Inl left \<Rightarrow> left
      | Inr hdrs \<Rightarrow>
          (case send url method (Some fixed_data) (PDict hdrs) timeout verbose tr of
             (NoneNone, tr') \<Rightarrow> (Raised ValueError, tr')
           | (NoneNoneNone, tr') \<Rightarrow> (FellThrough, tr')
           | (StatusHeadersText status hs txt, tr') \<Rightarrow>
               (if status \<noteq> 0 \<and> txt \<noteq> [] then
                  (if sublist sentinel txt
                   then (Returned True,
                         tr' @ [Log WARNING
                           (''Potential '' @ name @
                            '' HTTP Request Smuggling Vulnerability Detected!'')])
                   else (FellThrough,
                         tr' @ [Log INFO
                           (name @ '' Test: No immediate vulnerability detected.'')]))
                else (FellThrough, tr'))))"

fun leave :: "outcome \<Rightarrow> exn + bool" where
  "leave (Returned b) = Inr b"
| "leave (Raised e) = Inl e"
| "leave FellThrough = Inr False"

definition detect_http_smuggling_with ::
  "'x sender \<Rightarrow> env \<Rightarrow> string \<Rightarrow> string \<Rightarrow> string option \<Rightarrow> pyval \<Rightarrow> int \<Rightarrow> bool
     \<Rightarrow> 'x event list \<Rightarrow> (exn + bool) \<times> 'x event list" where
  "detect_http_smuggling_with send env url method data headers timeout verbose tr =
     (case probe send env ''CL.TE'' cl_te_headers cl_te_data
             url method headers timeout verbose tr of
        (FellThrough, tr1) \<Rightarrow>
          (case probe send env ''TE.CL'' te_cl_headers te_cl_data
                  url method headers timeout verbose tr1 of
             (FellThrough, tr2) \<Rightarrow>
               (case probe send env ''TE.TE'' te_te_headers te_te_data
                       url method headers timeout verbose tr2 of
                  (out, tr3) \<Rightarrow> (leave out, tr3))
           | (out, tr2) \<Rightarrow> (leave out, tr2))
      | (out, tr1) \<Rightarrow> (leave out, tr1))"

text \<open>The function of the source: the sender is \<open>send_request\<close>.\<close>

definition detect_http_smuggling ::
  "env \<Rightarrow> string \<Rightarrow> string \<Rightarrow> string option \<Rightarrow> pyval \<Rightarrow> int \<Rightarrow> bool
     \<Rightarrow> 'x event list \<Rightarrow> (exn + bool) \<times> 'x event list" where
  "detect_http_smuggling env = detect_http_smuggling_with (send_request env) env"

section \<open>main\<close>

text \<open>The namespace \<open>argparse\<close> returns; \<open>--data\<close> and \<open>--headers\<close> default to \<open>None\<close>.\<close>

record args =
  arg_url :: string
  arg_method :: string
  arg_data :: "string option"
  arg_headers :: "string option"
  arg_timeout :: int
  arg_verbose :: bool

definition opt_str :: "string option \<Rightarrow> pyval" where
  "opt_str x = (case x of None \<Rightarrow> PNone | Some s \<Rightarrow> PStr s)"

text \<open>
  \<open>main\<close> returns the exit status of the process: 1 from either \<open>sys.exit(1)\<close>, 0 when
  the function ends.
\<close>

definition main :: "env \<Rightarrow> args \<Rightarrow> 'x event list \<Rightarrow> int \<times> 'x event list" where
  "main env a tr =
     (if \<not> is_valid_url env (arg_url a)
      then (1, tr @ [Log ERROR ''Invalid URL provided.''])
      else
        (let tr0 = tr @ [Log INFO ''Starting HTTP Request Smuggling scan on: {args.url}'']
         in case detect_http_smuggling env (arg_url a) (arg_method a) (arg_data a)
                   (opt_str (arg_headers a)) (arg_timeout a) (arg_verbose a) tr0 of
              (Inr True, tr') \<Rightarrow>
                (0, tr' @ [Log INFO
                   ''HTTP Request Smuggling scan completed. Vulnerabilities found.''])
            | (Inr False, tr') \<Rightarrow>
                (0, tr' @ [Log INFO
                   ''HTTP Request Smuggling scan completed. No immediate vulnerabilities found.''])
            | (Inl e, tr') \<Rightarrow>
                (1, tr' @ [Log ERROR ''An error occurred during the scan: {e}''])))"

section \<open>Observing the probe executor\<close>

text \<open>
  To observe which probes run, in which order and with which arguments, the request sender
  is replaced by one that records each call (as an \<open>Ext\<close> event) and answers as a given
  function of the call and of the number of calls before it says: \<open>None\<close> for the empty
  result, or a status code, headers and text.
\<close>

record call =
  call_url :: string
  call_method :: string
  call_data :: "string option"
  call_headers :: pyval
  call_timeout :: int
  call_verbose :: bool

type_synonym reply = "(int \<times> (string \<times> string) list \<times> string) option"

definition reply_result :: "reply \<Rightarrow> sendret" where
  "reply_result r =
     (case r of None \<Rightarrow> NoneNoneNone | Some (status, hs, txt) \<Rightarrow> StatusHeadersText status hs txt)"

definition recording_sender :: "(nat \<Rightarrow> call \<Rightarrow> reply) \<Rightarrow> call sender" where
  "recording_sender respond url method data headers timeout verbose tr =
     (let c = \<lparr>call_url = url, call_method = method, call_data = data, call_headers = headers,
                call_timeout = timeout, call_verbose = verbose\<rparr>
      in (reply_result (respond (length (exts tr)) c), tr @ [Ext c]))"

definition probe_calls :: "string \<Rightarrow> string \<Rightarrow> pydict \<Rightarrow> int \<Rightarrow> bool \<Rightarrow> call list" where
  "probe_calls url method custom timeout verbose =
     map (\<lambda>(fixed_headers, fixed_data).
            \<lparr>call_url = url, call_method = method, call_data = Some fixed_data,
             call_headers = PDict (update_items fixed_headers custom),
             call_timeout = timeout, call_verbose = verbose\<rparr>)
       [(cl_te_headers, cl_te_data), (te_cl_headers, te_cl_data), (te_te_headers, te_te_data)]"

definition reply_detected :: "(nat \<Rightarrow> call \<Rightarrow> reply) \<Rightarrow> call list \<Rightarrow> nat \<Rightarrow> bool" where
  "reply_detected respond cs i = detected (reply_result (respond i (cs ! i)))"


text \<open>
  Stand-ins for the library on the inputs of the examples: \<open>json.loads\<close> on the header
  strings used, \<open>urlparse\<close> on the URLs used, a server that answers every request with
  status 200 and the request's data (which holds the sentinel) as text, and a server that
  answers every request with status 500 and the sentinel as text.
\<close>

definition example_json :: "string \<Rightarrow> exn + pyval" where
  "example_json s =
     (if s = ''{\"X-Custom-Header\": \"value\"}''
      then Inr (PDict [(PStr ''X-Custom-Header'', PStr ''value'')])
      else if s = ''5'' then Inr (PInt 5)
      else Inl JSONDecodeError)"

definition example_urlparse :: "string \<Rightarrow> exn + parse_result" where
  "example_urlparse u =
     (if u = ''http://example.com'' then Inr \<lparr>scheme = ''http'', netloc = ''example.com''\<rparr>
      else if u = ''http://[::1'' then Inl ValueError
      else Inr \<lparr>scheme = [], netloc = []\<rparr>)"

definition echo_server :: "request list \<Rightarrow> request \<Rightarrow> exn + response" where
  "echo_server sent r =
     Inr \<lparr>status_code = 200, resp_headers = [],
          resp_text = (case req_data r of None \<Rightarrow> sentinel | Some d \<Rightarrow> d)\<rparr>"

definition error_server :: "request list \<Rightarrow> request \<Rightarrow> exn + response" where
  "error_server sent r = Inr \<lparr>status_code = 500, resp_headers = [], resp_text = sentinel\<rparr>"

definition no_pairs :: "pydict \<Rightarrow> pyval list \<Rightarrow> exn + pydict" where
  "no_pairs d xs = Inl TypeError"

definition example_env :: env where
  "example_env =
     \<lparr>json_parse = example_json, update_from_pairs = no_pairs,
      urlparse = example_urlparse, requests_request = echo_server\<rparr>"

definition error_env :: env where
  "error_env =
     \<lparr>json_parse = example_json, update_from_pairs = no_pairs,
      urlparse = example_urlparse, requests_request = error_server\<rparr>"

definition example_args :: "string \<Rightarrow> string option \<Rightarrow> args" where
  "example_args u h =
     \<lparr>arg_url = u, arg_method = ''GET'', arg_data = None, arg_headers = h,
      arg_timeout = 10, arg_verbose = False\<rparr>"

definition no_reply :: "nat \<Rightarrow> call \<Rightarrow> reply" where
  "no_reply n c = None"

definition echo_reply :: "nat \<Rightarrow> call \<Rightarrow> reply" where
  "echo_reply n c = Some (200, [], sentinel)"

definition second_reply :: "nat \<Rightarrow> call \<Rightarrow> reply" where
  "second_reply n c = (if n = 1 then Some (200, [], sentinel) else Some (200, [], ''ok''))"

section \<open>Facts about traces\<close>

lemma exts_append [simp]: "exts (xs @ ys) = exts xs @ exts ys"
  by (induction xs rule: exts.induct) simp_all

lemma http_requests_append [simp]:
  "http_requests (xs @ ys) = http_requests xs @ http_requests ys"
  by (induction xs rule: http_requests.induct) simp_all

lemma logs_append [simp]: "logs (xs @ ys) = logs xs @ logs ys"
  by (induction xs rule: logs.induct) simp_all

text \<open>
  \<open>send_request\<close> hands every truthy \<open>headers\<close> argument to \<open>json.loads\<close>. A non-empty
  dict is truthy and is not a string: \<open>json.loads\<close> raises \<open>TypeError\<close>, which the inner
  handler (for \<open>JSONDecodeError\<close>) lets pass and the last handler turns into the empty
  result, before \<open>requests.request\<close> is reached.
\<close>

lemma send_request_nonempty_dict:
  "send_request env url method data (PDict (kv # kvs)) timeout verbose tr =
     (NoneNoneNone, tr @ [Log ERROR ''An unexpected error occurred: {e}''])"
  by (simp add: send_request_def send_request_body_def json_loads_def is_RequestException_def)

section \<open>The claims\<close>

text \<open>
  C1 (the code departs from the claim). The claim: against a server that echoes the sentinel
  in every response, the scan without custom headers returns true and stops after the first
  matching probe. The code: whatever the server would answer, the scan without custom
  headers returns false, having called \<open>requests.request\<close> not once; each of the three
  probes ends in the last handler of \<open>send_request\<close>.
\<close>

theorem scan_without_headers_never_requests:
  "detect_http_smuggling env url method data PNone timeout verbose tr =
     (Inr False, tr @ [Log ERROR ''An unexpected error occurred: {e}'',
                       Log ERROR ''An unexpected error occurred: {e}'',
                       Log ERROR ''An unexpected error occurred: {e}''])
   \<and> http_requests (snd (detect_http_smuggling env url method data PNone timeout verbose tr)) =
       http_requests tr"
  by (simp add: detect_http_smuggling_def detect_http_smuggling_with_def probe_def
      send_request_nonempty_dict cl_te_headers_def te_cl_headers_def te_te_headers_def)

text \<open>
  C2 (the code departs from the claim). The claim: a call of \<open>send_request\<close> with a header
  mapping performs exactly one request and returns the response's triple on success. The
  code: with a non-empty dict as \<open>headers\<close>, \<open>send_request\<close> returns the empty triple and
  performs no request, for every server.
\<close>

theorem send_request_dict_headers_no_request:
  "send_request env url method data (PDict (kv # kvs)) timeout verbose tr =
     (NoneNoneNone, tr @ [Log ERROR ''An unexpected error occurred: {e}''])
   \<and> http_requests
        (snd (send_request env url method data (PDict (kv # kvs)) timeout verbose tr)) =
       http_requests tr"
  by (simp add: send_request_nonempty_dict)

text \<open>
  C8 (the code departs from the claim). The claim: every failure inside \<open>send_request\<close>
  yields the empty (status code, headers, body) result. The code: on a header string that
  is not JSON, \<open>send_request\<close> returns the pair \<open>(None, None)\<close>, not the triple the two
  outer handlers return; no request is made.
\<close>

theorem send_request_invalid_json_returns_pair:
  "send_request example_env ''http://example.com'' ''GET'' None (PStr ''not json'') 10 False
     ([] :: unit event list) =
   (NoneNone, [Log ERROR ''Invalid JSON format for headers: {e}''])"
  by (simp add: send_request_def send_request_body_def json_loads_def example_env_def
      example_json_def)

text \<open>
  C3 (corrected). The claim: with a custom header string that is not valid JSON, the probe
  is skipped and the scan goes on to the remaining probes. The code returns from the
  function in the handler of the first probe. As amended: with a non-empty custom header
  string that is not valid JSON, the scan logs one error and returns false at once, whatever
  the request sender; the sender is not called and no later probe is run.
\<close>

theorem invalid_json_headers_end_scan:
  assumes "s \<noteq> []" and "json_parse env s = Inl JSONDecodeError"
  shows "detect_http_smuggling_with send env url method data (PStr s) timeout verbose tr =
           (Inr False, tr @ [Log ERROR ''Invalid JSON format for headers: {e}''])
       \<and> detect_http_smuggling env url method data (PStr s) timeout verbose tr =
           (Inr False, tr @ [Log ERROR ''Invalid JSON format for headers: {e}''])"
  using assms
  by (simp add: detect_http_smuggling_def detect_http_smuggling_with_def probe_def
      json_loads_def)

theorem invalid_json_headers_end_scan_witness:
  "''not json'' \<noteq> [] \<and> json_parse example_env ''not json'' = Inl JSONDecodeError
   \<and> detect_http_smuggling example_env ''http://example.com'' ''GET'' None
       (PStr ''not json'') 10 False ([] :: unit event list) =
      (Inr False, [Log ERROR ''Invalid JSON format for headers: {e}''])"
proof -
  have a: "''not json'' \<noteq> []" by simp
  have b: "json_parse example_env ''not json'' = Inl JSONDecodeError"
    by (simp add: example_env_def example_json_def)
  show ?thesis
    using a b
      invalid_json_headers_end_scan [OF a b, of "send_request example_env"
        "''http://example.com''" "''GET''" None 10 False "[] :: unit event list"]
    by simp
qed

text \<open>
  The claim fails at the header string \<open>not json\<close>: the first block does not fall through
  to the second but returns, and the scan ends with one error logged and the request sender
  never called.
\<close>

theorem invalid_json_headers_counterexample:
  "fst (probe (recording_sender no_reply) example_env ''CL.TE'' cl_te_headers cl_te_data
          ''http://example.com'' ''GET'' (PStr ''not json'') 10 False []) \<noteq> FellThrough
   \<and> detect_http_smuggling_with (recording_sender no_reply) example_env
        ''http://example.com'' ''GET'' None (PStr ''not json'') 10 False [] =
      (Inr False, [Log ERROR ''Invalid JSON format for headers: {e}''])"
  by (simp add: detect_http_smuggling_with_def probe_def json_loads_def example_env_def
      example_json_def)

text \<open>
  C5. \<open>is_valid_url\<close> returns true exactly when \<open>urlparse\<close> returns a result whose scheme
  and network location are both non-empty; when \<open>urlparse\<close> raises, it returns false; and
  its result does not depend on what the network would answer.
\<close>

theorem is_valid_url_iff:
  "(is_valid_url env url \<longleftrightarrow>
      (\<exists>r. urlparse env url = Inr r \<and> scheme r \<noteq> [] \<and> netloc r \<noteq> []))
   \<and> (\<forall>e. urlparse env url = Inl e \<longrightarrow> \<not> is_valid_url env url)
   \<and> is_valid_url (env\<lparr>requests_request := t\<rparr>) url = is_valid_url env url"
  by (auto simp: is_valid_url_def split: sum.splits)

theorem is_valid_url_iff_witness:
  "is_valid_url example_env ''http://example.com''
   \<and> urlparse example_env ''http://[::1'' = Inl ValueError
   \<and> \<not> is_valid_url example_env ''http://[::1''
   \<and> \<not> is_valid_url example_env ''not a url''"
proof -
  have a: "urlparse example_env ''http://[::1'' = Inl ValueError"
    by (simp add: example_env_def example_urlparse_def)
  have b: "urlparse example_env ''http://example.com'' =
             Inr \<lparr>scheme = ''http'', netloc = ''example.com''\<rparr>"
    by (simp add: example_env_def example_urlparse_def)
  have c: "urlparse example_env ''not a url'' = Inr \<lparr>scheme = [], netloc = []\<rparr>"
    by (simp add: example_env_def example_urlparse_def)
  show ?thesis
    using a b c
      is_valid_url_iff [of example_env "''http://[::1''" error_server]
      is_valid_url_iff [of example_env "''http://example.com''" error_server]
      is_valid_url_iff [of example_env "''not a url''" error_server]
    by simp
qed

end
